theory Spec2Isabelle
  imports Complex_Main "HOL-Library.AList"
begin

section \<open>The Instrument of bolo-calc (python/bolo/instrument.py)\<close>

text \<open>
  The class \<open>Instrument\<close> drives a sky model, its cameras, one Sensitivity per channel and
  a collection of output tables. Its methods are embedded as functions on a record of the
  attributes they read and write. The objects the methods call into (the universe, the
  \<open>obs_effic\<close> parameter, the cameras, astropy's \<open>vstack\<close>, the writer of the tables) live
  outside \<open>instrument.py\<close>: a call to one of them is recorded, with its receiver and its
  arguments, in the field \<open>calls\<close>, in the order of execution, and is taken to return
  normally. The four methods that \<open>run\<close> chains record their own entry there as well.
\<close>

subsection \<open>Objects and values\<close>

text \<open>The sky model passed by the caller and a channel of a camera: handles of objects.\<close>

datatype universe = Universe nat

datatype channel = Channel nat

text \<open>A camera, as far as the Instrument looks into it: its mapping from channel name to
  channel, in iteration order.\<close>

record camera =
  channels :: "(string \<times> channel) list"

text \<open>\<open>Sensitivity(channel)\<close>: the result object built from one channel.\<close>

datatype sensitivity = Sensitivity channel

text \<open>An astropy table is kept as the list of its rows. What a row holds is the business of
  the Sensitivity that made it; a row names the channel it belongs to.\<close>

datatype row = Row channel

type_synonym table = "row list"

text \<open>\<open>freq_resol\<close> is \<open>None\<close> or a number that is only handed on.\<close>

type_synonym freq_resol = "real option"

datatype error = AttributeError | KeyError | ValueError

datatype event =
    Instrument_eval_sky universe int freq_resol
  | Instrument_eval_instrument int freq_resol
  | Instrument_eval_sensitivities
  | Instrument_make_tables string bool bool
  | Universe_sample universe int
  | Obs_effic_sample int
  | Camera_eval_sky camera universe freq_resol
  | Camera_sample camera int
  | Camera_eval_optical_chains camera int freq_resol
  | Camera_eval_det_response camera int freq_resol
  | Sensitivity_make_tables sensitivity string bool bool
  | Vstack "table list"
  | Save_datatables string

text \<open>The stages of \<open>run\<close> are the entries of the Instrument's own four methods.\<close>

fun is_stage :: "event \<Rightarrow> bool" where
  "is_stage (Instrument_eval_sky u n f) = True"
| "is_stage (Instrument_eval_instrument n f) = True"
| "is_stage Instrument_eval_sensitivities = True"
| "is_stage (Instrument_make_tables b ss sv) = True"
| "is_stage e = False"

text \<open>The camera a recorded call is made on, if it is made on a camera.\<close>

fun receiver :: "event \<Rightarrow> camera option" where
  "receiver (Camera_eval_sky c u f) = Some c"
| "receiver (Camera_sample c n) = Some c"
| "receiver (Camera_eval_optical_chains c n f) = Some c"
| "receiver (Camera_eval_det_response c n f) = Some c"
| "receiver e = None"

subsection \<open>The table collection\<close>

text \<open>
  Modelled from the spec: the class \<open>TableDict\<close> (bolo/data_utils.py) is not among the
  sources. The spec gives it as an ordered mapping from table name to table with the
  operations \<open>keys\<close>, \<open>add_datatable(name, table)\<close> and \<open>pop_table(name)\<close>
  (lookup and remove). It is kept as an association list in insertion order;
  \<open>TableDict()\<close> is the empty list.
\<close>

type_synonym tabledict = "(string \<times> table) list"

definition keys :: "tabledict \<Rightarrow> string list" where
  "keys tbl = map fst tbl"

text \<open>Modelled from the spec: \<open>TableDict.add_datatable\<close>, the assignment of an ordered
  mapping: a known name keeps its place and gets the new table, a new name goes last.\<close>

definition add_datatable :: "string \<Rightarrow> table \<Rightarrow> tabledict \<Rightarrow> tabledict" where
  "add_datatable name t tbl = AList.update name t tbl"

text \<open>Modelled from the spec: \<open>TableDict.pop_table\<close>, the \<open>pop\<close> of a mapping: the table
  under the name and the collection without it, \<open>KeyError\<close> for a name that is not there.\<close>

definition pop_table :: "string \<Rightarrow> tabledict \<Rightarrow> error + table \<times> tabledict" where
  "pop_table name tbl =
     (case map_of tbl name of
        None \<Rightarrow> Inl KeyError
      | Some t \<Rightarrow> Inr (t, AList.delete name tbl))"

text \<open>
  Modelled from the spec: \<open>vstack\<close> is astropy's; the spec has the vertical concatenation of
  tables of one schema, and has it raise on no table at all (astropy raises
  \<open>ValueError\<close> there).
\<close>

definition vstack :: "table list \<Rightarrow> error + table" where
  "vstack ts = (if ts = [] then Inl ValueError else Inr (concat ts))"

text \<open>
  Modelled from the spec: \<open>Sensitivity.make_tables(name, tables, save_summary, save_sim)\<close>
  (bolo/sensitivity.py) is not among the sources. By the spec it puts into the collection,
  under names that start with the given name, a summary table of the channel when
  \<open>save_summary\<close> is set and a table of its samples when \<open>save_sim\<close> is set. The name of
  the summary table ends in the marker that \<open>Instrument.make_tables\<close> looks for; the spec
  does not give the name of the other table, and \<open>_sims\<close> stands for it. The methods below
  do not use this definition: they take the method as the parameter \<open>sns_make_tables\<close>,
  and this one is what the examples put there.
\<close>

definition Sensitivity_tables ::
  "sensitivity \<Rightarrow> string \<Rightarrow> tabledict \<Rightarrow> bool \<Rightarrow> bool \<Rightarrow> tabledict" where
  "Sensitivity_tables val name tbl save_summary save_sim =
     (let tbl1 = (if save_summary
                  then add_datatable (name @ ''_summary'') (case val of Sensitivity ch \<Rightarrow> [Row ch]) tbl
                  else tbl)
      in if save_sim
         then add_datatable (name @ ''_sims'') (case val of Sensitivity ch \<Rightarrow> [Row ch, Row ch]) tbl1
         else tbl1)"

subsection \<open>Strings\<close>

text \<open>\<open>s.find(sub)\<close>: the lowest index at which \<open>sub\<close> occurs in \<open>s\<close>, or \<open>-1\<close>.\<close>

fun startswith :: "string \<Rightarrow> string \<Rightarrow> bool" where
  "startswith s [] = True"
| "startswith [] (c # sub) = False"
| "startswith (d # s) (c # sub) = (d = c \<and> startswith s sub)"

fun find_from :: "int \<Rightarrow> string \<Rightarrow> string \<Rightarrow> int" where
  "find_from i [] sub = (if sub = [] then i else - 1)"
| "find_from i (d # s) sub = (if startswith (d # s) sub then i else find_from (i + 1) s sub)"

definition str_find :: "string \<Rightarrow> string \<Rightarrow> int" where
  "str_find s sub = find_from 0 s sub"

subsection \<open>The Instrument and its methods\<close>

text \<open>
  \<open>cameras\<close> is the mapping from camera name to camera, in iteration order;
  \<open>sns_dict\<close> and \<open>tables\<close> are the attributes \<open>_sns_dict\<close> and \<open>_tables\<close>, \<open>None\<close>
  after construction. A method returns its value or the error it raises, and the
  Instrument as it leaves it.
\<close>

record instrument =
  cameras :: "(string \<times> camera) list"
  sns_dict :: "(string \<times> sensitivity) list option"
  tables :: "tabledict option"
  calls :: "event list"

definition call :: "event \<Rightarrow> instrument \<Rightarrow> instrument" where
  "call e s = s\<lparr>calls := calls s @ [e]\<rparr>"

text \<open>\<open>for camera in self.cameras.values(): camera.eval_sky(universe, freq_resol)\<close>\<close>

fun eval_sky_loop :: "camera list \<Rightarrow> universe \<Rightarrow> freq_resol \<Rightarrow> instrument \<Rightarrow> instrument" where
  "eval_sky_loop [] universe freq_resol s = s"
| "eval_sky_loop (camera # rest) universe freq_resol s =
     eval_sky_loop rest universe freq_resol (call (Camera_eval_sky camera universe freq_resol) s)"

definition eval_sky ::
  "universe \<Rightarrow> int \<Rightarrow> freq_resol \<Rightarrow> instrument \<Rightarrow> (error + unit) \<times> instrument" where
  "eval_sky universe nsamples freq_resol s =
     (let s0 = call (Instrument_eval_sky universe nsamples freq_resol) s;
          s1 = call (Universe_sample universe nsamples) s0;
          s2 = call (Obs_effic_sample nsamples) s1;
          s3 = eval_sky_loop (map snd (cameras s2)) universe freq_resol s2
      in (Inr (), s3))"

fun eval_instrument_loop :: "camera list \<Rightarrow> int \<Rightarrow> freq_resol \<Rightarrow> instrument \<Rightarrow> instrument" where
  "eval_instrument_loop [] nsamples freq_resol s = s"
| "eval_instrument_loop (camera # rest) nsamples freq_resol s =
     (let s1 = call (Camera_sample camera nsamples) s;
          s2 = call (Camera_eval_optical_chains camera nsamples freq_resol) s1;
          s3 = call (Camera_eval_det_response camera nsamples freq_resol) s2
      in eval_instrument_loop rest nsamples freq_resol s3)"

definition eval_instrument ::
  "int \<Rightarrow> freq_resol \<Rightarrow> instrument \<Rightarrow> (error + unit) \<times> instrument" where
  "eval_instrument nsamples freq_resol s =
     (let s0 = call (Instrument_eval_instrument nsamples freq_resol) s
      in (Inr (), eval_instrument_loop (map snd (cameras s0)) nsamples freq_resol s0))"

text \<open>The two loops of \<open>eval_sensitivities\<close>, on the ordered dictionary being filled:
  \<open>d[full_name] = Sensitivity(channel)\<close> replaces the value of a known key in place and
  appends a new key.\<close>

fun sns_channels ::
  "string \<Rightarrow> (string \<times> channel) list \<Rightarrow> (string \<times> sensitivity) list \<Rightarrow> (string \<times> sensitivity) list" where
  "sns_channels cam_name [] d = d"
| "sns_channels cam_name ((chan_name, channel) # rest) d =
     (let full_name = cam_name @ chan_name
      in sns_channels cam_name rest (AList.update full_name (Sensitivity channel) d))"

fun sns_cameras ::
  "(string \<times> camera) list \<Rightarrow> (string \<times> sensitivity) list \<Rightarrow> (string \<times> sensitivity) list" where
  "sns_cameras [] d = d"
| "sns_cameras ((cam_name, camera) # rest) d =
     sns_cameras rest (sns_channels cam_name (channels camera) d)"

definition eval_sensitivities :: "instrument \<Rightarrow> (error + unit) \<times> instrument" where
  "eval_sensitivities s =
     (let s0 = call Instrument_eval_sensitivities s;
          s1 = s0\<lparr>sns_dict := Some []\<rparr>
      in (Inr (), s1\<lparr>sns_dict := Some (sns_cameras (cameras s1) [])\<rparr>))"

text \<open>The loop of \<open>make_tables\<close>: every Sensitivity fills the shared collection under the
  name \<open>basename + key\<close>.\<close>

fun make_tables_loop ::
  "(sensitivity \<Rightarrow> string \<Rightarrow> tabledict \<Rightarrow> bool \<Rightarrow> bool \<Rightarrow> tabledict) \<Rightarrow> string \<Rightarrow> bool \<Rightarrow> bool \<Rightarrow>
   (string \<times> sensitivity) list \<Rightarrow> tabledict \<times> instrument \<Rightarrow> tabledict \<times> instrument" where
  "make_tables_loop sns_make_tables basename save_summary save_sim [] (tbl, s) = (tbl, s)"
| "make_tables_loop sns_make_tables basename save_summary save_sim ((key, val) # rest) (tbl, s) =
     make_tables_loop sns_make_tables basename save_summary save_sim rest
       (sns_make_tables val (basename @ key) tbl save_summary save_sim,
        call (Sensitivity_make_tables val (basename @ key) save_summary save_sim) s)"

text \<open>\<open>[self._tables.pop_table(sum_key) for sum_key in sum_keys]\<close>\<close>

fun pop_tables :: "string list \<Rightarrow> tabledict \<Rightarrow> (error + table list) \<times> tabledict" where
  "pop_tables [] tbl = (Inr [], tbl)"
| "pop_tables (sum_key # rest) tbl =
     (case pop_table sum_key tbl of
        Inl e \<Rightarrow> (Inl e, tbl)
      | Inr (t, tbl1) \<Rightarrow>
          (case pop_tables rest tbl1 of
             (Inl e, tbl2) \<Rightarrow> (Inl e, tbl2)
           | (Inr ts, tbl2) \<Rightarrow> (Inr (t # ts), tbl2)))"

definition make_tables ::
  "(sensitivity \<Rightarrow> string \<Rightarrow> tabledict \<Rightarrow> bool \<Rightarrow> bool \<Rightarrow> tabledict) \<Rightarrow> string \<Rightarrow> bool \<Rightarrow> bool \<Rightarrow>
   instrument \<Rightarrow> (error + tabledict) \<times> instrument" where
  "make_tables sns_make_tables basename save_summary save_sim s =
     (let s0 = call (Instrument_make_tables basename save_summary save_sim) s;
          s1 = s0\<lparr>tables := Some []\<rparr>
      in case sns_dict s1 of
           None \<Rightarrow> (Inl AttributeError, s1)
         | Some d \<Rightarrow>
             (case make_tables_loop sns_make_tables basename save_summary save_sim d ([], s1) of
                (tbl, s2) \<Rightarrow>
                  if \<not> save_summary then (Inr tbl, s2\<lparr>tables := Some tbl\<rparr>)
                  else
                    (let sum_keys = filter (\<lambda>key. str_find key ''_summary'' > 0) (keys tbl)
                     in case pop_tables sum_keys tbl of
                          (Inl e, tbl1) \<Rightarrow> (Inl e, s2\<lparr>tables := Some tbl1\<rparr>)
                        | (Inr popped, tbl1) \<Rightarrow>
                            (let s3 = call (Vstack popped) (s2\<lparr>tables := Some tbl1\<rparr>)
                             in case vstack popped of
                                  Inl e \<Rightarrow> (Inl e, s3)
                                | Inr sum_table \<Rightarrow>
                                    (let tbl2 = add_datatable (basename @ ''summary'') sum_table tbl1
                                     in (Inr tbl2, s3\<lparr>tables := Some tbl2\<rparr>))))))"

text \<open>
  \<open>if self._tables:\<close> asks for the truth value of a \<open>TableDict\<close> object, which its class
  decides (by \<open>__bool__\<close> or \<open>__len__\<close>, if it has one). The class is not among the sources
  and the spec does not say: the truth value is the parameter \<open>truthy\<close>.
\<close>

definition write_tables ::
  "(tabledict \<Rightarrow> bool) \<Rightarrow> string \<Rightarrow> instrument \<Rightarrow> (error + unit) \<times> instrument" where
  "write_tables truthy filename s =
     (case tables s of
        None \<Rightarrow> (Inr (), s)
      | Some tbl \<Rightarrow>
          if truthy tbl then (Inr (), call (Save_datatables filename) s)
          else (Inr (), s))"

record sim_cfg =
  nsky_sim :: int
  ndet_sim :: int
  freq_resol :: freq_resol
  save_summary :: bool
  save_sim :: bool

definition run ::
  "(sensitivity \<Rightarrow> string \<Rightarrow> tabledict \<Rightarrow> bool \<Rightarrow> bool \<Rightarrow> tabledict) \<Rightarrow> universe \<Rightarrow> sim_cfg \<Rightarrow> string \<Rightarrow>
   instrument \<Rightarrow> (error + unit) \<times> instrument" where
  "run sns_make_tables universe cfg basename s =
     (case eval_sky universe (nsky_sim cfg) (freq_resol cfg) s of
        (Inl e, s1) \<Rightarrow> (Inl e, s1)
      | (Inr _, s1) \<Rightarrow>
     (case eval_instrument (ndet_sim cfg) (freq_resol cfg) s1 of
        (Inl e, s2) \<Rightarrow> (Inl e, s2)
      | (Inr _, s2) \<Rightarrow>
     (case eval_sensitivities s2 of
        (Inl e, s3) \<Rightarrow> (Inl e, s3)
      | (Inr _, s3) \<Rightarrow>
     (let summary = (if max (nsky_sim cfg) 1 * max (ndet_sim cfg) 1 = 1 then False
                     else save_summary cfg)
      in case make_tables sns_make_tables basename summary (save_sim cfg) s3 of
           (Inl e, s4) \<Rightarrow> (Inl e, s4)
         | (Inr _, s4) \<Rightarrow> (Inr (), s4)))))"


subsection \<open>What the claims are stated with\<close>

text \<open>The (camera, channel) pairs of an Instrument, in the order the two loops of
  \<open>eval_sensitivities\<close> meet them, the key of a pair and the entry made for it.\<close>

definition pairs :: "(string \<times> camera) list \<Rightarrow> (string \<times> string \<times> channel) list" where
  "pairs cams =
     concat (map (\<lambda>(cam_name, camera).
                    map (\<lambda>(chan_name, channel). (cam_name, chan_name, channel)) (channels camera)) cams)"

fun full_name :: "string \<times> string \<times> channel \<Rightarrow> string" where
  "full_name (cam_name, chan_name, channel) = cam_name @ chan_name"

fun entry :: "string \<times> string \<times> channel \<Rightarrow> string \<times> sensitivity" where
  "entry (cam_name, chan_name, channel) = (cam_name @ chan_name, Sensitivity channel)"

text \<open>Assigning a list of entries to an ordered dictionary, one after the other.\<close>

definition setitems ::
  "(string \<times> sensitivity) list \<Rightarrow> (string \<times> sensitivity) list \<Rightarrow> (string \<times> sensitivity) list" where
  "setitems es d = fold (\<lambda>(k, v). AList.update k v) es d"

fun entered_make_tables :: "event \<Rightarrow> bool" where
  "entered_make_tables (Instrument_make_tables b ss sv) = True"
| "entered_make_tables e = False"

text \<open>Instruments and configurations to run the methods on: two cameras with three
  channels; two cameras whose channels get the same key \<open>abc\<close>; an Instrument whose Sensitivity collection is
  empty; one with a single evaluated channel; one whose camera and first channel have the
  empty string for a name.\<close>

definition two_cameras :: instrument where
  "two_cameras =
     \<lparr>cameras = [(''cam1'', \<lparr>channels = [(''ch1'', Channel 1), (''ch2'', Channel 2)]\<rparr>),
                 (''cam2'', \<lparr>channels = [(''ch1'', Channel 3)]\<rparr>)],
      sns_dict = None, tables = None, calls = []\<rparr>"

definition colliding :: instrument where
  "colliding =
     \<lparr>cameras = [(''a'', \<lparr>channels = [(''bc'', Channel 1)]\<rparr>),
                 (''ab'', \<lparr>channels = [(''c'', Channel 2)]\<rparr>)],
      sns_dict = None, tables = None, calls = []\<rparr>"

definition no_sensitivities :: instrument where
  "no_sensitivities = \<lparr>cameras = [], sns_dict = Some [], tables = None, calls = []\<rparr>"

definition one_channel :: instrument where
  "one_channel =
     \<lparr>cameras = [(''cam1'', \<lparr>channels = [(''ch1'', Channel 1)]\<rparr>)],
      sns_dict = Some [(''cam1ch1'', Sensitivity (Channel 1))], tables = None, calls = []\<rparr>"

definition unnamed :: instrument where
  "unnamed =
     \<lparr>cameras = [('''', \<lparr>channels = [('''', Channel 1), (''b'', Channel 2)]\<rparr>)],
      sns_dict = Some [('''', Sensitivity (Channel 1)), (''b'', Sensitivity (Channel 2))],
      tables = None, calls = []\<rparr>"

definition deterministic :: sim_cfg where
  "deterministic =
     \<lparr>nsky_sim = 1, ndet_sim = 0, freq_resol = None, save_summary = True, save_sim = True\<rparr>"

definition five_skies :: sim_cfg where
  "five_skies =
     \<lparr>nsky_sim = 5, ndet_sim = 0, freq_resol = None, save_summary = True, save_sim = True\<rparr>"

section \<open>The loops in closed form\<close>

lemma eval_sky_loop_eq:
  "eval_sky_loop cs u f s = s\<lparr>calls := calls s @ map (\<lambda>c. Camera_eval_sky c u f) cs\<rparr>"
  by (induction cs arbitrary: s) (simp_all add: call_def)

lemma eval_instrument_loop_eq:
  "eval_instrument_loop cs n f s =
     s\<lparr>calls := calls s @ concat (map (\<lambda>c. [Camera_sample c n, Camera_eval_optical_chains c n f,
                                               Camera_eval_det_response c n f]) cs)\<rparr>"
  by (induction cs arbitrary: s) (simp_all add: call_def Let_def)

lemma eval_sky_eq:
  "eval_sky u n f s =
     (Inr (), s\<lparr>calls := calls s @ [Instrument_eval_sky u n f, Universe_sample u n, Obs_effic_sample n]
                              @ map (\<lambda>c. Camera_eval_sky c u f) (map snd (cameras s))\<rparr>)"
  by (simp add: eval_sky_def eval_sky_loop_eq call_def Let_def)

lemma eval_instrument_eq:
  "eval_instrument n f s =
     (Inr (), s\<lparr>calls := calls s @ Instrument_eval_instrument n f #
         concat (map (\<lambda>c. [Camera_sample c n, Camera_eval_optical_chains c n f,
                            Camera_eval_det_response c n f]) (map snd (cameras s)))\<rparr>)"
  by (simp add: eval_instrument_def eval_instrument_loop_eq call_def Let_def)

lemma filter_receiver:
  "distinct cs \<Longrightarrow> c \<in> set cs \<Longrightarrow>
   filter (\<lambda>e. receiver e = Some c)
     (concat (map (\<lambda>c. [Camera_sample c n, Camera_eval_optical_chains c n f,
                         Camera_eval_det_response c n f]) cs)) =
   [Camera_sample c n, Camera_eval_optical_chains c n f, Camera_eval_det_response c n f]"
proof (induction cs)
  case Nil
  then show ?case by simp
next
  case (Cons a cs)
  have none: "filter (\<lambda>e. receiver e = Some c)
     (concat (map (\<lambda>c. [Camera_sample c n, Camera_eval_optical_chains c n f,
                         Camera_eval_det_response c n f]) xs)) = []" if "c \<notin> set xs" for xs
    using that by (induction xs) auto
  show ?case
  proof (cases "a = c")
    case True
    with Cons.prems have "c \<notin> set cs" by simp
    with True show ?thesis by (simp add: none)
  next
    case False
    with Cons show ?thesis by simp
  qed
qed

lemma make_tables_loop_eq:
  "make_tables_loop smt b ss sv d (tbl, s) =
     (fold (\<lambda>(key, val) t. smt val (b @ key) t ss sv) d tbl,
      s\<lparr>calls := calls s @ map (\<lambda>(key, val). Sensitivity_make_tables val (b @ key) ss sv) d\<rparr>)"
  by (induction d arbitrary: tbl s) (auto simp: call_def)

subsection \<open>Filling the ordered dictionary of Sensitivities\<close>

lemma setitems_Nil [simp]: "setitems [] d = d"
  by (simp add: setitems_def)

lemma setitems_Cons [simp]: "setitems ((k, v) # es) d = setitems es (AList.update k v d)"
  by (simp add: setitems_def)

lemma setitems_append: "setitems (es @ fs) d = setitems fs (setitems es d)"
  by (simp add: setitems_def)

lemma sns_channels_eq:
  "sns_channels cn chs d = setitems (map (\<lambda>(chn, ch). (cn @ chn, Sensitivity ch)) chs) d"
  by (induction chs arbitrary: d) (auto simp: Let_def)

lemma sns_cameras_eq: "sns_cameras cams d = setitems (map entry (pairs cams)) d"
proof (induction cams arbitrary: d)
  case Nil
  show ?case by (simp add: pairs_def)
next
  case (Cons a cams)
  obtain cn cam where a: "a = (cn, cam)" by (cases a)
  have "map entry (pairs (a # cams)) =
        map (\<lambda>(chn, ch). (cn @ chn, Sensitivity ch)) (channels cam) @ map entry (pairs cams)"
    by (auto simp: pairs_def a)
  then show ?case using Cons by (simp add: a sns_channels_eq setitems_append)
qed

lemma setitems_distinct: "distinct (map fst d) \<Longrightarrow> distinct (map fst (setitems es d))"
  by (induction es arbitrary: d) (auto simp: distinct_update)

lemma setitems_keys: "set (map fst (setitems es d)) = set (map fst d) \<union> set (map fst es)"
proof (induction es arbitrary: d)
  case Nil
  show ?case by simp
next
  case (Cons a es)
  obtain k v where a: "a = (k, v)" by (cases a)
  have "fst ` set (AList.update k v d) = {k} \<union> fst ` set d" by (rule dom_update)
  then show ?case using Cons[of "AList.update k v d"] by (auto simp: a)
qed

text \<open>Keys that are new and pairwise different are appended in order.\<close>

lemma setitems_fresh:
  "distinct (map fst d @ map fst es) \<Longrightarrow> setitems es d = d @ es"
proof (induction es arbitrary: d)
  case Nil
  show ?case by simp
next
  case (Cons a es)
  obtain k v where a: "a = (k, v)" by (cases a)
  from Cons.prems have k: "k \<notin> set (map fst d)" by (auto simp: a)
  have upd: "AList.update k v d = d @ [(k, v)]" using k by (induction d) auto
  have "distinct (map fst (d @ [(k, v)]) @ map fst es)" using Cons.prems by (auto simp: a)
  from Cons.IH[OF this] show ?case by (simp add: a upd)
qed

text \<open>The last assignment to a key is the one that stays.\<close>

lemma setitems_last:
  "k \<notin> fst ` set fs \<Longrightarrow> map_of (setitems (es @ (k, v) # fs) d) k = Some v"
proof -
  have notin: "map_of (setitems fs d') k = map_of d' k" if "k \<notin> fst ` set fs" for d'
    using that
  proof (induction fs arbitrary: d')
    case Nil
    show ?case by simp
  next
    case (Cons a fs)
    obtain k' v' where a: "a = (k', v')" by (cases a)
    from Cons.prems have "k' \<noteq> k" "k \<notin> fst ` set fs" by (auto simp: a)
    then show ?case using Cons.IH[of "AList.update k' v' d'"] by (simp add: a update_conv')
  qed
  assume "k \<notin> fst ` set fs"
  then show ?thesis by (simp add: setitems_append notin update_conv')
qed

lemma map_fst_entry: "map fst (map entry ps) = map full_name ps"
  by (induction ps) auto

lemma short_of_collision:
  assumes "distinct (map fst d)" "set (map fst d) = set ks" "\<not> distinct ks"
  shows "length d < length ks"
proof -
  have "length d = card (set ks)" using assms(1,2) by (metis distinct_card length_map)
  moreover have "card (set ks) < length ks"
    using assms(3) card_distinct card_length le_neq_implies_less by metis
  ultimately show ?thesis by simp
qed

lemma eval_sensitivities_eq:
  "eval_sensitivities s =
     (Inr (), s\<lparr>calls := calls s @ [Instrument_eval_sensitivities],
                sns_dict := Some (setitems (map entry (pairs (cameras s))) [])\<rparr>)"
  by (simp add: eval_sensitivities_def call_def Let_def sns_cameras_eq)

subsection \<open>The calls of \<open>make_tables\<close> and of \<open>run\<close>\<close>

lemma make_tables_calls:
  "\<exists>T. calls (snd (make_tables smt b ss sv s)) = calls s @ Instrument_make_tables b ss sv # T
       \<and> filter is_stage T = [] \<and> filter entered_make_tables T = []"
proof (cases "sns_dict s")
  case None
  then show ?thesis by (simp add: make_tables_def call_def Let_def)
next
  case (Some d)
  have nostage: "filter is_stage (map (\<lambda>(key, val). Sensitivity_make_tables val (b @ key) ss sv) d) = []"
    by (induction d) auto
  have nomt: "filter entered_make_tables (map (\<lambda>(key, val). Sensitivity_make_tables val (b @ key) ss sv) d) = []"
    by (induction d) auto
  show ?thesis using Some nostage nomt
    by (auto simp: make_tables_def call_def Let_def make_tables_loop_eq
             split: prod.splits sum.splits)
qed

lemma run_calls:
  "\<exists>T. calls (snd (run smt u cfg b s)) =
         calls s
         @ [Instrument_eval_sky u (nsky_sim cfg) (freq_resol cfg),
            Universe_sample u (nsky_sim cfg), Obs_effic_sample (nsky_sim cfg)]
         @ map (\<lambda>c. Camera_eval_sky c u (freq_resol cfg)) (map snd (cameras s))
         @ Instrument_eval_instrument (ndet_sim cfg) (freq_resol cfg)
           # concat (map (\<lambda>c. [Camera_sample c (ndet_sim cfg),
                                Camera_eval_optical_chains c (ndet_sim cfg) (freq_resol cfg),
                                Camera_eval_det_response c (ndet_sim cfg) (freq_resol cfg)])
                         (map snd (cameras s)))
         @ [Instrument_eval_sensitivities,
            Instrument_make_tables b
              (if max (nsky_sim cfg) 1 * max (ndet_sim cfg) 1 = 1 then False else save_summary cfg)
              (save_sim cfg)]
         @ T
       \<and> filter is_stage T = [] \<and> filter entered_make_tables T = []"
proof -
  define s3 where "s3 = snd (eval_sensitivities (snd (eval_instrument (ndet_sim cfg) (freq_resol cfg)
                         (snd (eval_sky u (nsky_sim cfg) (freq_resol cfg) s)))))"
  define flag where
    "flag = (if max (nsky_sim cfg) 1 * max (ndet_sim cfg) 1 = 1 then False else save_summary cfg)"
  have run: "snd (run smt u cfg b s) = snd (make_tables smt b flag (save_sim cfg) s3)"
    by (simp add: run_def s3_def flag_def eval_sky_eq eval_instrument_eq eval_sensitivities_eq Let_def
             split: prod.splits sum.splits)
  have c3: "calls s3 = calls s
         @ [Instrument_eval_sky u (nsky_sim cfg) (freq_resol cfg),
            Universe_sample u (nsky_sim cfg), Obs_effic_sample (nsky_sim cfg)]
         @ map (\<lambda>c. Camera_eval_sky c u (freq_resol cfg)) (map snd (cameras s))
         @ Instrument_eval_instrument (ndet_sim cfg) (freq_resol cfg)
           # concat (map (\<lambda>c. [Camera_sample c (ndet_sim cfg),
                                Camera_eval_optical_chains c (ndet_sim cfg) (freq_resol cfg),
                                Camera_eval_det_response c (ndet_sim cfg) (freq_resol cfg)])
                         (map snd (cameras s)))
         @ [Instrument_eval_sensitivities]"
    by (simp add: s3_def eval_sky_eq eval_instrument_eq eval_sensitivities_eq)
  obtain T where T: "calls (snd (make_tables smt b flag (save_sim cfg) s3)) =
       calls s3 @ Instrument_make_tables b flag (save_sim cfg) # T"
       "filter is_stage T = []" "filter entered_make_tables T = []"
    using make_tables_calls by blast
  show ?thesis
    unfolding run flag_def[symmetric] using T by (simp add: c3)
qed

section \<open>The sky stage\<close>

text \<open>
  C6: for every sample count \<open>n\<close>, \<open>eval_sky(universe, n, freq_resol)\<close> first has the
  universe draw \<open>n\<close> samples, then resamples \<open>obs_effic\<close> with the same \<open>n\<close>, and only then
  calls \<open>eval_sky(universe, freq_resol)\<close> on every owned camera, in the order of the
  mapping; it returns no value and changes nothing else.
\<close>

theorem eval_sky_calls:
  "eval_sky u n f s =
     (Inr (), s\<lparr>calls := calls s @ [Instrument_eval_sky u n f, Universe_sample u n, Obs_effic_sample n]
                              @ map (\<lambda>c. Camera_eval_sky c u f) (map snd (cameras s))\<rparr>)"
  by (simp add: eval_sky_def eval_sky_loop_eq call_def Let_def)

section \<open>The instrument stage\<close>

text \<open>
  The calls of \<open>eval_instrument(nsamples, freq_resol)\<close>: for every owned camera the three
  calls \<open>sample(nsamples)\<close>, \<open>eval_optical_chains(nsamples, freq_resol)\<close>,
  \<open>eval_det_response(nsamples, freq_resol)\<close> in this order, all three of one camera before
  the first of the next, each with \<open>nsamples\<close> and \<open>freq_resol\<close> for arguments. This is
  the order that C7 speaks of. What a camera reads while it runs these methods (its own
  state, or through its parent the state of another camera) is decided in the class
  \<open>Camera\<close>, which is not part of \<open>instrument.py\<close>; nothing is stated about it here.
\<close>

lemma eval_instrument_call_order:
  "eval_instrument n f s =
     (Inr (), s\<lparr>calls := calls s @ Instrument_eval_instrument n f #
         concat (map (\<lambda>c. [Camera_sample c n, Camera_eval_optical_chains c n f,
                            Camera_eval_det_response c n f]) (map snd (cameras s)))\<rparr>)
   \<and> (distinct (map snd (cameras s)) \<longrightarrow> c \<in> set (map snd (cameras s)) \<longrightarrow>
        filter (\<lambda>e. receiver e = Some c) (drop (length (calls s)) (calls (snd (eval_instrument n f s)))) =
        [Camera_sample c n, Camera_eval_optical_chains c n f, Camera_eval_det_response c n f])"
proof -
  have "filter (\<lambda>e. receiver e = Some c) (drop (length (calls s)) (calls (snd (eval_instrument n f s)))) =
        [Camera_sample c n, Camera_eval_optical_chains c n f, Camera_eval_det_response c n f]"
    if "distinct (map snd (cameras s))" "c \<in> set (map snd (cameras s))"
    using filter_receiver[OF that] by (simp add: eval_instrument_eq)
  then show ?thesis by (simp only: eval_instrument_eq) simp
qed

lemma eval_instrument_call_order_example:
  "distinct (map snd (cameras two_cameras))
   \<and> \<lparr>channels = [(''ch1'', Channel 3)]\<rparr> \<in> set (map snd (cameras two_cameras))
   \<and> filter (\<lambda>e. receiver e = Some \<lparr>channels = [(''ch1'', Channel 3)]\<rparr>)
        (drop (length (calls two_cameras)) (calls (snd (eval_instrument 5 None two_cameras)))) =
      [Camera_sample \<lparr>channels = [(''ch1'', Channel 3)]\<rparr> 5,
       Camera_eval_optical_chains \<lparr>channels = [(''ch1'', Channel 3)]\<rparr> 5 None,
       Camera_eval_det_response \<lparr>channels = [(''ch1'', Channel 3)]\<rparr> 5 None]"
  using eval_instrument_call_order [of 5 None two_cameras "\<lparr>channels = [(''ch1'', Channel 3)]\<rparr>"]
  by (simp add: two_cameras_def)

section \<open>The sensitivities\<close>

text \<open>
  C3, as the code has it: whatever \<open>_sns_dict\<close> held before, \<open>eval_sensitivities()\<close>
  returns normally and replaces it by a freshly built collection whose keys are exactly
  the concatenations \<open>camera_name + channel_name\<close> of the (camera, channel) pairs there
  are at the call, each key once. When these concatenations are pairwise different, the
  collection is one entry per pair, in the order of the loops, each under its
  concatenation and holding the Sensitivity of its channel. The prior content does not
  show in the result, and a second call in a row gives the same collection again.
\<close>

theorem eval_sensitivities_rebuilds:
  "fst (eval_sensitivities s) = Inr ()
   \<and> (\<exists>d. sns_dict (snd (eval_sensitivities s)) = Some d
          \<and> distinct (map fst d)
          \<and> set (map fst d) = set (map full_name (pairs (cameras s)))
          \<and> (distinct (map full_name (pairs (cameras s))) \<longrightarrow> d = map entry (pairs (cameras s))))
   \<and> sns_dict (snd (eval_sensitivities (s\<lparr>sns_dict := prior\<rparr>))) = sns_dict (snd (eval_sensitivities s))
   \<and> sns_dict (snd (eval_sensitivities (snd (eval_sensitivities s)))) = sns_dict (snd (eval_sensitivities s))"
proof -
  let ?es = "map entry (pairs (cameras s))"
  have d: "distinct (map fst (setitems ?es []))"
    by (rule setitems_distinct) simp
  have k: "set (map fst (setitems ?es [])) = set (map full_name (pairs (cameras s)))"
    by (simp only: setitems_keys map_fst_entry) simp
  have f: "setitems ?es [] = ?es" if "distinct (map full_name (pairs (cameras s)))"
  proof -
    from that have "distinct (map fst ([] :: (string \<times> sensitivity) list) @ map fst ?es)"
      unfolding map_fst_entry by simp
    from setitems_fresh[OF this] show ?thesis by simp
  qed
  show ?thesis using d k f by (simp add: eval_sensitivities_eq)
qed

theorem eval_sensitivities_rebuilds_witness:
  "distinct (map full_name (pairs (cameras two_cameras)))
   \<and> sns_dict (snd (eval_sensitivities (two_cameras\<lparr>sns_dict := Some [(''old'', Sensitivity (Channel 9))]\<rparr>))) =
       Some [(''cam1ch1'', Sensitivity (Channel 1)), (''cam1ch2'', Sensitivity (Channel 2)),
             (''cam2ch1'', Sensitivity (Channel 3))]"
  using eval_sensitivities_rebuilds [of two_cameras "Some [(''old'', Sensitivity (Channel 9))]"]
  by (simp add: two_cameras_def pairs_def)

text \<open>
  C3 as it is written (one entry per pair for every Instrument) fails where two pairs have
  the same concatenation: camera \<open>a\<close> with channel \<open>bc\<close> and camera \<open>ab\<close> with channel
  \<open>c\<close> are two pairs and leave one entry.
\<close>

theorem one_entry_per_pair_counterexample:
  "pairs (cameras colliding) = [(''a'', ''bc'', Channel 1), (''ab'', ''c'', Channel 2)]
   \<and> sns_dict (snd (eval_sensitivities colliding)) = Some [(''abc'', Sensitivity (Channel 2))]"
  by (simp add: colliding_def pairs_def eval_sensitivities_def call_def Let_def)

text \<open>
  C8: if two (camera, channel) pairs have the same key \<open>camera_name + channel_name\<close>,
  \<open>eval_sensitivities()\<close> raises nothing, the key occurs once, what is stored under it is
  the Sensitivity of the pair met last (the later one has overwritten the earlier), and
  the collection has fewer entries than there are pairs.
\<close>

theorem eval_sensitivities_overwrites:
  "pairs (cameras s) = xs @ (cam1, chan1, c1) # ys @ (cam2, chan2, c2) # zs \<Longrightarrow>
   cam1 @ chan1 = cam2 @ chan2 \<Longrightarrow>
   cam2 @ chan2 \<notin> set (map full_name zs) \<Longrightarrow>
   fst (eval_sensitivities s) = Inr ()
   \<and> (\<exists>d. sns_dict (snd (eval_sensitivities s)) = Some d
          \<and> distinct (map fst d)
          \<and> map_of d (cam2 @ chan2) = Some (Sensitivity c2)
          \<and> length d < length (pairs (cameras s)))"
proof -
  assume ps: "pairs (cameras s) = xs @ (cam1, chan1, c1) # ys @ (cam2, chan2, c2) # zs"
    and same: "cam1 @ chan1 = cam2 @ chan2"
    and last: "cam2 @ chan2 \<notin> set (map full_name zs)"
  let ?es = "map entry (pairs (cameras s))"
  let ?d = "setitems ?es []"
  have d: "distinct (map fst ?d)"
    by (rule setitems_distinct) simp
  have k: "set (map fst ?d) = set (map full_name (pairs (cameras s)))"
    by (simp only: setitems_keys map_fst_entry) simp
  have nd: "\<not> distinct (map full_name (pairs (cameras s)))"
    using same by (simp add: ps)
  have len: "length ?d < length (pairs (cameras s))"
    using short_of_collision[OF d k nd] by simp
  have es: "?es = map entry (xs @ (cam1, chan1, c1) # ys) @ (cam2 @ chan2, Sensitivity c2) # map entry zs"
    by (simp add: ps)
  have "cam2 @ chan2 \<notin> fst ` set (map entry zs)"
    using last by (metis list.set_map map_fst_entry)
  then have m: "map_of ?d (cam2 @ chan2) = Some (Sensitivity c2)"
    unfolding es by (rule setitems_last)
  show ?thesis using d len m by (simp add: eval_sensitivities_eq)
qed

theorem eval_sensitivities_overwrites_witness:
  "pairs (cameras colliding) = [] @ (''a'', ''bc'', Channel 1) # [] @ (''ab'', ''c'', Channel 2) # []
   \<and> ''a'' @ ''bc'' = ''ab'' @ ''c''
   \<and> ''ab'' @ ''c'' \<notin> set (map full_name [])
   \<and> fst (eval_sensitivities colliding) = Inr ()
   \<and> (\<exists>d. sns_dict (snd (eval_sensitivities colliding)) = Some d
          \<and> map_of d ''abc'' = Some (Sensitivity (Channel 2))
          \<and> length d < length (pairs (cameras colliding)))"
proof -
  have h1: "pairs (cameras colliding) = [] @ (''a'', ''bc'', Channel 1) # [] @ (''ab'', ''c'', Channel 2) # []"
    by (simp add: colliding_def pairs_def)
  have h2: "''a'' @ ''bc'' = ''ab'' @ ''c''" by simp
  have h3: "''ab'' @ ''c'' \<notin> set (map full_name [])" by simp
  show ?thesis using h1 h2 h3 eval_sensitivities_overwrites [OF h1 h2 h3] by auto
qed

section \<open>The tables\<close>

text \<open>
  C5: on every Instrument whose Sensitivity collection \<open>_sns_dict\<close> is empty,
  \<open>make_tables\<close> with \<open>save_summary = True\<close> raises: no table is made, no key is a
  summary key, \<open>vstack\<close> is called on the empty list and its \<open>ValueError\<close> is what the
  caller of \<open>make_tables\<close> gets; \<open>_tables\<close> is left as the empty collection. \<open>run\<close>
  does not catch it either: on an Instrument without any channel it raises the same
  error whenever it asks for the summary.
\<close>

theorem make_tables_empty_raises:
  "(sns_dict s = Some [] \<longrightarrow>
      make_tables smt b True sv s =
        (Inl ValueError,
         s\<lparr>calls := calls s @ [Instrument_make_tables b True sv, Vstack []], tables := Some []\<rparr>))
   \<and> (pairs (cameras s) = [] \<longrightarrow> max (nsky_sim cfg) 1 * max (ndet_sim cfg) 1 \<noteq> 1 \<longrightarrow> save_summary cfg \<longrightarrow>
        fst (run smt u cfg b s) = Inl ValueError)"
proof -
  have mt: "make_tables smt b True sv s' =
        (Inl ValueError,
         s'\<lparr>calls := calls s' @ [Instrument_make_tables b True sv, Vstack []], tables := Some []\<rparr>)"
    if "sns_dict s' = Some []" for s' sv
    using that by (simp add: make_tables_def call_def Let_def keys_def vstack_def)
  have "fst (run smt u cfg b s) = Inl ValueError"
    if "pairs (cameras s) = []" "max (nsky_sim cfg) 1 * max (ndet_sim cfg) 1 \<noteq> 1" "save_summary cfg"
    using that by (simp add: run_def eval_sky_eq eval_instrument_eq eval_sensitivities_eq mt)
  with mt show ?thesis by blast
qed

theorem make_tables_empty_raises_witness:
  "sns_dict no_sensitivities = Some []
   \<and> make_tables Sensitivity_tables ''run_'' True True no_sensitivities =
       (Inl ValueError,
        \<lparr>cameras = [], sns_dict = Some [], tables = Some [],
         calls = [Instrument_make_tables ''run_'' True True, Vstack []]\<rparr>)
   \<and> pairs (cameras no_sensitivities) = []
   \<and> max (nsky_sim five_skies) 1 * max (ndet_sim five_skies) 1 \<noteq> 1
   \<and> save_summary five_skies
   \<and> fst (run Sensitivity_tables (Universe 0) five_skies ''run_'' no_sensitivities) = Inl ValueError"
  using make_tables_empty_raises [of no_sensitivities Sensitivity_tables "''run_''" True five_skies "Universe 0"]
  by (simp add: no_sensitivities_def five_skies_def pairs_def)

text \<open>
  C2, where the code departs from it: the test of a key is \<open>key.find('_summary') > 0\<close>,
  which a key that starts with the marker fails. With the basename \<open>_summary_run\<close> every
  key starts with the marker: nothing is popped, the summary table of the channel stays in
  the collection under its own key, and \<open>vstack\<close> raises on the empty list. With a camera
  and a channel named by the empty string and an empty basename, the summary table of that
  channel has the key \<open>_summary\<close>: it is neither popped nor stacked, and is still there,
  beside the merged table \<open>summary\<close>, in the collection that is returned.
\<close>

theorem make_tables_misses_leading_marker:
  "make_tables Sensitivity_tables ''_summary_run'' True True one_channel =
     (Inl ValueError,
      \<lparr>cameras = [(''cam1'', \<lparr>channels = [(''ch1'', Channel 1)]\<rparr>)],
       sns_dict = Some [(''cam1ch1'', Sensitivity (Channel 1))],
       tables = Some [(''_summary_runcam1ch1_summary'', [Row (Channel 1)]),
                      (''_summary_runcam1ch1_sims'', [Row (Channel 1), Row (Channel 1)])],
       calls = [Instrument_make_tables ''_summary_run'' True True,
                Sensitivity_make_tables (Sensitivity (Channel 1)) ''_summary_runcam1ch1'' True True,
                Vstack []]\<rparr>)
   \<and> fst (make_tables Sensitivity_tables '''' True True unnamed) =
       Inr [(''_summary'', [Row (Channel 1)]),
            (''_sims'', [Row (Channel 1), Row (Channel 1)]),
            (''b_sims'', [Row (Channel 2), Row (Channel 2)]),
            (''summary'', [Row (Channel 2)])]"
  by (simp add: make_tables_def one_channel_def unnamed_def Sensitivity_tables_def add_datatable_def
        call_def Let_def keys_def str_find_def pop_table_def vstack_def)

text \<open>
  C9: \<open>write_tables(filename)\<close> on an Instrument whose \<open>_tables\<close> is unset (no
  \<open>make_tables\<close> yet) returns normally, calls no writer and leaves the Instrument as it was.
\<close>

theorem write_tables_unset:
  "tables s = None \<Longrightarrow> write_tables truthy filename s = (Inr (), s)"
  by (simp add: write_tables_def)

theorem write_tables_unset_witness:
  "tables two_cameras = None
   \<and> write_tables (\<lambda>tbl. True) ''out.fits'' two_cameras = (Inr (), two_cameras)"
  using write_tables_unset [of two_cameras "\<lambda>tbl. True" "''out.fits''"]
  by (simp add: two_cameras_def)

text \<open>Once \<open>_tables\<close> is set, the writer is called exactly when the collection counts as
  true.\<close>

lemma write_tables_set:
  "tables s = Some tbl \<Longrightarrow>
   write_tables truthy filename s =
     (Inr (), if truthy tbl then s\<lparr>calls := calls s @ [Save_datatables filename]\<rparr> else s)"
  by (simp add: write_tables_def call_def)

section \<open>The whole chain\<close>

text \<open>
  C4: every \<open>run(universe, sim_cfg, basename)\<close> enters \<open>eval_sky\<close>, \<open>eval_instrument\<close>,
  \<open>eval_sensitivities\<close> and \<open>make_tables\<close> once each and in this order, the sky stage
  with \<open>sim_cfg.nsky_sim\<close> and the instrument stage with \<open>sim_cfg.ndet_sim\<close>; all the
  calls of a stage come before the entry of the next, and nothing after the entry of
  \<open>make_tables\<close> is the entry of a stage.
\<close>

theorem run_stages:
  "(\<exists>T. calls (snd (run smt u cfg b s)) =
         calls s
         @ [Instrument_eval_sky u (nsky_sim cfg) (freq_resol cfg),
            Universe_sample u (nsky_sim cfg), Obs_effic_sample (nsky_sim cfg)]
         @ map (\<lambda>c. Camera_eval_sky c u (freq_resol cfg)) (map snd (cameras s))
         @ Instrument_eval_instrument (ndet_sim cfg) (freq_resol cfg)
           # concat (map (\<lambda>c. [Camera_sample c (ndet_sim cfg),
                                Camera_eval_optical_chains c (ndet_sim cfg) (freq_resol cfg),
                                Camera_eval_det_response c (ndet_sim cfg) (freq_resol cfg)])
                         (map snd (cameras s)))
         @ [Instrument_eval_sensitivities,
            Instrument_make_tables b
              (if max (nsky_sim cfg) 1 * max (ndet_sim cfg) 1 = 1 then False else save_summary cfg)
              (save_sim cfg)]
         @ T
       \<and> filter is_stage T = [])
   \<and> filter is_stage (drop (length (calls s)) (calls (snd (run smt u cfg b s)))) =
       [Instrument_eval_sky u (nsky_sim cfg) (freq_resol cfg),
        Instrument_eval_instrument (ndet_sim cfg) (freq_resol cfg),
        Instrument_eval_sensitivities,
        Instrument_make_tables b
          (if max (nsky_sim cfg) 1 * max (ndet_sim cfg) 1 = 1 then False else save_summary cfg)
          (save_sim cfg)]"
proof -
  have sky: "filter is_stage (map (\<lambda>c. Camera_eval_sky c u f) cs) = []" for cs f
    by (induction cs) auto
  have ins: "filter is_stage (concat (map (\<lambda>c. [Camera_sample c n, Camera_eval_optical_chains c n f,
                                Camera_eval_det_response c n f]) cs)) = []" for cs n f
    by (induction cs) auto
  from run_calls[of smt u cfg b s] obtain T where
    T: "calls (snd (run smt u cfg b s)) =
         calls s
         @ [Instrument_eval_sky u (nsky_sim cfg) (freq_resol cfg),
            Universe_sample u (nsky_sim cfg), Obs_effic_sample (nsky_sim cfg)]
         @ map (\<lambda>c. Camera_eval_sky c u (freq_resol cfg)) (map snd (cameras s))
         @ Instrument_eval_instrument (ndet_sim cfg) (freq_resol cfg)
           # concat (map (\<lambda>c. [Camera_sample c (ndet_sim cfg),
                                Camera_eval_optical_chains c (ndet_sim cfg) (freq_resol cfg),
                                Camera_eval_det_response c (ndet_sim cfg) (freq_resol cfg)])
                         (map snd (cameras s)))
         @ [Instrument_eval_sensitivities,
            Instrument_make_tables b
              (if max (nsky_sim cfg) 1 * max (ndet_sim cfg) 1 = 1 then False else save_summary cfg)
              (save_sim cfg)]
         @ T" and nT: "filter is_stage T = []"
    by blast
  have second: "filter is_stage (drop (length (calls s)) (calls (snd (run smt u cfg b s)))) =
       [Instrument_eval_sky u (nsky_sim cfg) (freq_resol cfg),
        Instrument_eval_instrument (ndet_sim cfg) (freq_resol cfg),
        Instrument_eval_sensitivities,
        Instrument_make_tables b
          (if max (nsky_sim cfg) 1 * max (ndet_sim cfg) 1 = 1 then False else save_summary cfg)
          (save_sim cfg)]"
    unfolding T by (simp add: sky ins nT)
  show ?thesis using T nT second by blast
qed

theorem run_stages_witness:
  "filter is_stage (drop (length (calls two_cameras))
      (calls (snd (run Sensitivity_tables (Universe 0) five_skies ''run_'' two_cameras)))) =
     [Instrument_eval_sky (Universe 0) 5 None, Instrument_eval_instrument 0 None,
      Instrument_eval_sensitivities, Instrument_make_tables ''run_'' True True]"
  using run_stages [of Sensitivity_tables "Universe 0" five_skies "''run_''" two_cameras]
  by (simp add: five_skies_def)

text \<open>
  C1: \<open>run\<close> enters \<open>make_tables\<close> once, with \<open>save_summary = False\<close> whenever
  \<open>max(nsky_sim, 1) * max(ndet_sim, 1)\<close> is 1, whatever the configured flag, and with the
  configured \<open>sim_cfg.save_summary\<close> otherwise. \<open>make_tables\<close> with \<open>save_summary = False\<close>
  returns the collection as the Sensitivities have filled it, each asked with that flag:
  no table is popped, stacked or added.
\<close>

theorem run_summary_policy:
  "filter entered_make_tables (drop (length (calls s)) (calls (snd (run smt u cfg b s)))) =
     [Instrument_make_tables b
        (if max (nsky_sim cfg) 1 * max (ndet_sim cfg) 1 = 1 then False else save_summary cfg)
        (save_sim cfg)]
   \<and> (sns_dict s = Some d \<longrightarrow>
        make_tables smt b False sv s =
          (Inr (fold (\<lambda>(key, val) tbl. smt val (b @ key) tbl False sv) d []),
           s\<lparr>calls := calls s @ Instrument_make_tables b False sv
                         # map (\<lambda>(key, val). Sensitivity_make_tables val (b @ key) False sv) d,
             tables := Some (fold (\<lambda>(key, val) tbl. smt val (b @ key) tbl False sv) d [])\<rparr>))"
proof -
  have sky: "filter entered_make_tables (map (\<lambda>c. Camera_eval_sky c u f) cs) = []" for cs f
    by (induction cs) auto
  have ins: "filter entered_make_tables
               (concat (map (\<lambda>c. [Camera_sample c n, Camera_eval_optical_chains c n f,
                                   Camera_eval_det_response c n f]) cs)) = []" for cs n f
    by (induction cs) auto
  from run_calls[of smt u cfg b s] obtain T where
    T: "calls (snd (run smt u cfg b s)) =
         calls s
         @ [Instrument_eval_sky u (nsky_sim cfg) (freq_resol cfg),
            Universe_sample u (nsky_sim cfg), Obs_effic_sample (nsky_sim cfg)]
         @ map (\<lambda>c. Camera_eval_sky c u (freq_resol cfg)) (map snd (cameras s))
         @ Instrument_eval_instrument (ndet_sim cfg) (freq_resol cfg)
           # concat (map (\<lambda>c. [Camera_sample c (ndet_sim cfg),
                                Camera_eval_optical_chains c (ndet_sim cfg) (freq_resol cfg),
                                Camera_eval_det_response c (ndet_sim cfg) (freq_resol cfg)])
                         (map snd (cameras s)))
         @ [Instrument_eval_sensitivities,
            Instrument_make_tables b
              (if max (nsky_sim cfg) 1 * max (ndet_sim cfg) 1 = 1 then False else save_summary cfg)
              (save_sim cfg)]
         @ T" and nT: "filter entered_make_tables T = []"
    by blast
  have first: "filter entered_make_tables (drop (length (calls s)) (calls (snd (run smt u cfg b s)))) =
     [Instrument_make_tables b
        (if max (nsky_sim cfg) 1 * max (ndet_sim cfg) 1 = 1 then False else save_summary cfg)
        (save_sim cfg)]"
    unfolding T by (simp add: sky ins nT)
  have second: "make_tables smt b False sv s =
          (Inr (fold (\<lambda>(key, val) tbl. smt val (b @ key) tbl False sv) d []),
           s\<lparr>calls := calls s @ Instrument_make_tables b False sv
                         # map (\<lambda>(key, val). Sensitivity_make_tables val (b @ key) False sv) d,
             tables := Some (fold (\<lambda>(key, val) tbl. smt val (b @ key) tbl False sv) d [])\<rparr>)"
    if "sns_dict s = Some d"
    using that by (simp add: make_tables_def call_def Let_def make_tables_loop_eq)
  show ?thesis using first second by blast
qed

theorem run_summary_policy_witness:
  "save_summary deterministic
   \<and> filter entered_make_tables (drop (length (calls one_channel))
        (calls (snd (run Sensitivity_tables (Universe 0) deterministic ''run_'' one_channel)))) =
       [Instrument_make_tables ''run_'' False True]
   \<and> sns_dict one_channel = Some [(''cam1ch1'', Sensitivity (Channel 1))]
   \<and> make_tables Sensitivity_tables ''run_'' False True one_channel =
       (Inr [(''run_cam1ch1_sims'', [Row (Channel 1), Row (Channel 1)])],
        \<lparr>cameras = [(''cam1'', \<lparr>channels = [(''ch1'', Channel 1)]\<rparr>)],
         sns_dict = Some [(''cam1ch1'', Sensitivity (Channel 1))],
         tables = Some [(''run_cam1ch1_sims'', [Row (Channel 1), Row (Channel 1)])],
         calls = [Instrument_make_tables ''run_'' False True,
                  Sensitivity_make_tables (Sensitivity (Channel 1)) ''run_cam1ch1'' False True]\<rparr>)"
  using run_summary_policy [of one_channel Sensitivity_tables "Universe 0" deterministic "''run_''"
          "[(''cam1ch1'', Sensitivity (Channel 1))]" True]
  by (simp add: deterministic_def one_channel_def Sensitivity_tables_def add_datatable_def)

end
